theory Spec2Isabelle
  imports Main
begin

section \<open>Python values used by the note store\<close>

text \<open>
  The embedding follows \<^verbatim>\<open>application.py\<close>. A Python \<^verbatim>\<open>Optional[str]\<close> is a
  \<^typ>\<open>string option\<close>. An item (a Python dict from attribute names to strings) is an
  association list that keeps the insertion order of the dict; \<open>setitem\<close> is
  \<^verbatim>\<open>d[k] = v\<close> and \<open>dict\<close> is a dict display \<^verbatim>\<open>{k1: v1, k2: v2}\<close>, in which a later
  entry with an equal key replaces the value of the earlier one.
\<close>

type_synonym item = "(string \<times> string) list"

fun setitem :: "item \<Rightarrow> string \<Rightarrow> string \<Rightarrow> item" where
  "setitem [] k v = [(k, v)]"
| "setitem ((k', v') # d) k v =
     (if k' = k then (k, v) # d else (k', v') # setitem d k v)"

fun dict :: "(string \<times> string) list \<Rightarrow> item \<Rightarrow> item" where
  "dict [] d = d"
| "dict ((k, v) # kvs) d = dict kvs (setitem d k v)"

text \<open>Truthiness of an optional string: \<^verbatim>\<open>None\<close> and \<^verbatim>\<open>""\<close> are falsy.\<close>

fun truthy :: "string option \<Rightarrow> bool" where
  "truthy None = False"
| "truthy (Some s) = (s \<noteq> [])"

text \<open>\<open>nonempty x\<close> is the string of a truthy \<open>x\<close>; \<open>or_default x d\<close> is \<^verbatim>\<open>x or d\<close>.\<close>

fun nonempty :: "string option \<Rightarrow> string option" where
  "nonempty (Some (c # cs)) = Some (c # cs)"
| "nonempty (Some []) = None"
| "nonempty None = None"

fun or_default :: "string option \<Rightarrow> string \<Rightarrow> string" where
  "or_default (Some (c # cs)) d = c # cs"
| "or_default (Some []) d = d"
| "or_default None d = d"

text \<open>
  Exceptions raised by the collaborators (boto3 and the table). The store's
  \<^verbatim>\<open>except (BotoCoreError, ClientError)\<close> clauses catch the first two; every other
  exception is an \<open>OtherException\<close>, which carries the name of its class.
\<close>

datatype py_exn = BotoCoreError string | ClientError string | OtherException string

text \<open>
  What a call of the store raises: the module's own \<^verbatim>\<open>StorageError\<close> (its only exception
  class), the builtin \<^verbatim>\<open>ValueError\<close>, or an exception of a collaborator that no
  \<^verbatim>\<open>except\<close> clause caught.
\<close>

datatype error = StorageError string | ValueError string | Propagated py_exn

text \<open>\<^verbatim>\<open>except (BotoCoreError, ClientError) as e: raise StorageError(str(e)) from e\<close>\<close>

fun handle :: "py_exn \<Rightarrow> error" where
  "handle (BotoCoreError m) = StorageError m"
| "handle (ClientError m) = StorageError m"
| "handle (OtherException m) = Propagated (OtherException m)"

section \<open>The constructor and key-schema discovery\<close>

text \<open>The two attributes \<^verbatim>\<open>self.key_name\<close> and \<^verbatim>\<open>self.sort_key_name\<close> of a store.\<close>

record store =
  key_name :: string
  sort_key_name :: "string option"

text \<open>
  What discovery reads. An entry of a key schema is a dict (\<open>KsDict\<close>, with
  \<^verbatim>\<open>entry.get(k)\<close> as \<open>map_of\<close>) or any object without a \<^verbatim>\<open>get\<close> method (\<open>KsOther\<close>). The
  key schema itself is a list of entries, a falsy value (\<open>KsNone\<close>: \<^verbatim>\<open>None\<close>, or anything
  else that is falsy and not a list) or a truthy object that cannot be iterated
  (\<open>KsOther_val\<close>). The reply of \<^verbatim>\<open>describe_table\<close> and its \<^verbatim>\<open>"Table"\<close> entry are dicts with an
  optional entry, or objects without \<^verbatim>\<open>get\<close>.
\<close>

datatype ks_entry = KsDict "(string \<times> string) list" | KsOther

datatype ks_val = KsNone | KsList "ks_entry list" | KsOther_val

datatype table_val = TableDict "ks_val option" | TableOther

datatype desc_val = DescDict "table_val option" | DescOther

text \<open>
  The environment of the constructor: whether \<^verbatim>\<open>import boto3\<close> succeeded, what
  \<^verbatim>\<open>boto3.resource("dynamodb").Table(table_name)\<close> raises if anything, what reading the
  table's \<^verbatim>\<open>key_schema\<close> attribute gives or raises, and what \<^verbatim>\<open>describe_table\<close> gives or
  raises.
\<close>

record env =
  boto3_installed :: bool
  resource_error :: "py_exn option"
  key_schema_attr :: "py_exn + ks_val"
  describe_table :: "py_exn + desc_val"

fun ks_truthy :: "ks_val \<Rightarrow> bool" where
  "ks_truthy KsNone = False"
| "ks_truthy (KsList es) = (es \<noteq> [])"
| "ks_truthy KsOther_val = True"

text \<open>\<^verbatim>\<open>desc.get("Table", {}).get("KeySchema")\<close>\<close>

fun desc_key_schema :: "desc_val \<Rightarrow> py_exn + ks_val" where
  "desc_key_schema DescOther = Inl (OtherException ''AttributeError'')"
| "desc_key_schema (DescDict None) = Inr KsNone"
| "desc_key_schema (DescDict (Some TableOther)) = Inl (OtherException ''AttributeError'')"
| "desc_key_schema (DescDict (Some (TableDict None))) = Inr KsNone"
| "desc_key_schema (DescDict (Some (TableDict (Some ks)))) = Inr ks"

text \<open>
  The \<^verbatim>\<open>for entry in ks\<close> loop. It assigns to the attributes of \<open>self\<close> as it goes, so
  the store reached when an entry raises is returned with the exception.
\<close>

fun for_entries :: "ks_entry list \<Rightarrow> store \<Rightarrow> py_exn option \<times> store" where
  "for_entries [] self = (None, self)"
| "for_entries (KsOther # es) self = (Some (OtherException ''AttributeError''), self)"
| "for_entries (KsDict entry # es) self =
     (if map_of entry ''KeyType'' = Some ''HASH'' then
        for_entries es
          (self\<lparr>key_name := (case map_of entry ''AttributeName'' of
                               None \<Rightarrow> key_name self | Some a \<Rightarrow> a)\<rparr>)
      else if map_of entry ''KeyType'' = Some ''RANGE'' \<and> \<not> truthy (sort_key_name self) then
        for_entries es (self\<lparr>sort_key_name := map_of entry ''AttributeName''\<rparr>)
      else for_entries es self)"

text \<open>
  \<^verbatim>\<open>getattr(self.table, "key_schema", None)\<close>: an \<^verbatim>\<open>AttributeError\<close> raised by reading
  the attribute gives the default \<^verbatim>\<open>None\<close>; any other exception is raised by the call.
\<close>

fun getattr_default :: "py_exn + ks_val \<Rightarrow> py_exn + ks_val" where
  "getattr_default (Inr ks) = Inr ks"
| "getattr_default (Inl (OtherException c)) =
     (if c = ''AttributeError'' then Inr KsNone else Inl (OtherException c))"
| "getattr_default (Inl (BotoCoreError m)) = Inl (BotoCoreError m)"
| "getattr_default (Inl (ClientError m)) = Inl (ClientError m)"

text \<open>Lines 46 to 49: the key schema that the loop is given, or the exception raised.\<close>

definition load_key_schema :: "env \<Rightarrow> py_exn + ks_val" where
  "load_key_schema e =
     (case getattr_default (key_schema_attr e) of
        Inl x \<Rightarrow> Inl x
      | Inr ks \<Rightarrow>
          if \<not> ks_truthy ks then
            (case describe_table e of
               Inl x \<Rightarrow> Inl x
             | Inr desc \<Rightarrow> desc_key_schema desc)
          else Inr ks)"

text \<open>\<^verbatim>\<open>for entry in ks\<close> on each kind of value; only a list can be iterated.\<close>

fun iterate :: "ks_val \<Rightarrow> store \<Rightarrow> py_exn option \<times> store" where
  "iterate (KsList es) self = for_entries es self"
| "iterate KsNone self = (Some (OtherException ''TypeError''), self)"
| "iterate KsOther_val self = (Some (OtherException ''TypeError''), self)"

text \<open>The body of the \<^verbatim>\<open>try\<close> statement: the exception it ends with, if any, and \<open>self\<close>.\<close>

definition try_discover :: "env \<Rightarrow> store \<Rightarrow> py_exn option \<times> store" where
  "try_discover e self =
     (case load_key_schema e of
        Inl x \<Rightarrow> (Some x, self)
      | Inr ks \<Rightarrow> if ks_truthy ks then iterate ks self else (None, self))"

text \<open>
  \<^verbatim>\<open>DynamoNotes.__init__\<close>. \<^verbatim>\<open>except Exception: pass\<close> drops the exception of the
  \<^verbatim>\<open>try\<close> body and keeps \<open>self\<close> as the body left it.
\<close>

definition init :: "env \<Rightarrow> string option \<Rightarrow> string option \<Rightarrow> error + store" where
  "init e key_name_arg sort_key_name_arg =
     (if \<not> boto3_installed e then
        Inl (StorageError ''boto3 is not installed. Install requirements.txt and try again.'')
      else
        (case resource_error e of
           Some x \<Rightarrow> Inl (Propagated x)
         | None \<Rightarrow>
             Inr (snd (try_discover e
               \<lparr>key_name = or_default key_name_arg ''id'',
                sort_key_name = sort_key_name_arg\<rparr>))))"

section \<open>The table collaborator\<close>

text \<open>
  The five requests the store sends to \<^verbatim>\<open>self.table\<close>, over a table state \<open>'s\<close>. Each
  gives the reply or the exception raised, and the next state. The replies are the
  values the store reads from the response dict: \<^verbatim>\<open>resp.get("Item")\<close>,
  \<^verbatim>\<open>resp.get("Items")\<close> and \<^verbatim>\<open>resp.get("Attributes")\<close>, \<open>None\<close> when the entry is
  missing. The argument of \<open>scan\<close> is the filter \<^verbatim>\<open>Attr(name).eq(value)\<close>, if any; those
  of \<open>update_item\<close> are \<^verbatim>\<open>Key\<close>, \<^verbatim>\<open>UpdateExpression\<close> and
  \<^verbatim>\<open>ExpressionAttributeValues\<close> (\<^verbatim>\<open>ReturnValues\<close> is always \<^verbatim>\<open>"ALL_NEW"\<close>).
\<close>

record 's backend =
  put_item :: "item \<Rightarrow> 's \<Rightarrow> (py_exn + unit) \<times> 's"
  get_item :: "item \<Rightarrow> 's \<Rightarrow> (py_exn + item option) \<times> 's"
  scan :: "(string \<times> string) option \<Rightarrow> 's \<Rightarrow> (py_exn + item list option) \<times> 's"
  update_item :: "item \<Rightarrow> string \<Rightarrow> item \<Rightarrow> 's \<Rightarrow> (py_exn + item option) \<times> 's"
  delete_item :: "item \<Rightarrow> 's \<Rightarrow> (py_exn + unit) \<times> 's"

section \<open>The operations of the store\<close>

text \<open>The text of an f-string field \<^verbatim>\<open>'{self.sort_key_name}'\<close>.\<close>

definition quoted :: "string \<Rightarrow> string" where
  "quoted s = [CHR 0x27] @ s @ [CHR 0x27]"

text \<open>
  \<^verbatim>\<open>DynamoNotes.create\<close>. \<open>ts\<close> is what \<^verbatim>\<open>now_iso()\<close> returns in this call and
  \<open>uuid\<close> is what \<^verbatim>\<open>str(uuid.uuid4())\<close> would return.
\<close>

definition create ::
  "'s backend \<Rightarrow> store \<Rightarrow> string \<Rightarrow> string \<Rightarrow> string \<Rightarrow> string \<Rightarrow> string option \<Rightarrow>
     string option \<Rightarrow> 's \<Rightarrow> (error + item) \<times> 's" where
  "create B self ts uuid title content user_id item_id s =
     (let item_id' = or_default item_id uuid;
          item = dict [(key_name self, item_id'), (''title'', title), (''content'', content),
                       (''created_at'', ts), (''updated_at'', ts)] []
      in case (case nonempty (sort_key_name self) of
                 Some sk \<Rightarrow>
                   (case nonempty user_id of
                      None \<Rightarrow> Inl (StorageError (''Table requires sort key '' @ quoted sk @
                                                  ''; provide user_id''))
                    | Some u \<Rightarrow> Inr (setitem item sk u))
               | None \<Rightarrow> Inr item) of
           Inl err \<Rightarrow> (Inl err, s)
         | Inr item \<Rightarrow>
             (case put_item B item s of
                (Inl x, s') \<Rightarrow> (Inl (handle x), s')
              | (Inr _, s') \<Rightarrow> (Inr item, s')))"

text \<open>
  The key dict that \<^verbatim>\<open>get\<close>, \<^verbatim>\<open>update\<close> and \<^verbatim>\<open>delete\<close> each build in the same way;
  \<open>hint\<close> is the end of the message, the only part that differs between them.
\<close>

definition make_key :: "store \<Rightarrow> string \<Rightarrow> string option \<Rightarrow> string \<Rightarrow> error + item" where
  "make_key self item_id user_id hint =
     (case nonempty (sort_key_name self) of
        Some sk \<Rightarrow>
          (case user_id of
             None \<Rightarrow> Inl (StorageError (''Table has sort key '' @ quoted sk @
                                         ''; provide --user-id to '' @ hint))
           | Some u \<Rightarrow> Inr (dict [(key_name self, item_id), (sk, u)] []))
      | None \<Rightarrow> Inr (dict [(key_name self, item_id)] []))"

text \<open>\<^verbatim>\<open>DynamoNotes.get\<close>\<close>

definition get ::
  "'s backend \<Rightarrow> store \<Rightarrow> string \<Rightarrow> string option \<Rightarrow> 's \<Rightarrow> (error + item option) \<times> 's" where
  "get B self item_id user_id s =
     (case make_key self item_id user_id ''identify the item'' of
        Inl err \<Rightarrow> (Inl err, s)
      | Inr key \<Rightarrow>
          (case get_item B key s of
             (Inl x, s') \<Rightarrow> (Inl (handle x), s')
           | (Inr resp, s') \<Rightarrow> (Inr resp, s')))"

text \<open>\<^verbatim>\<open>DynamoNotes.list\<close>; \<^verbatim>\<open>resp.get("Items", [])\<close> is the empty list without the entry.\<close>

definition list_notes ::
  "'s backend \<Rightarrow> store \<Rightarrow> string option \<Rightarrow> 's \<Rightarrow> (error + item list) \<times> 's" where
  "list_notes B self user_id s =
     (case (case (nonempty user_id, nonempty (sort_key_name self)) of
              (Some u, Some sk) \<Rightarrow> scan B (Some (sk, u)) s
            | _ \<Rightarrow> scan B None s) of
        (Inl x, s') \<Rightarrow> (Inl (handle x), s')
      | (Inr None, s') \<Rightarrow> (Inr [], s')
      | (Inr (Some items), s') \<Rightarrow> (Inr items, s'))"

text \<open>
  \<^verbatim>\<open>DynamoNotes.update\<close>; \<open>ts\<close> is what \<^verbatim>\<open>now_iso()\<close> returns in this call.
  \<^verbatim>\<open>resp.get("Attributes", {})\<close> is the empty dict without the entry.
\<close>

definition update_expr :: "string option \<Rightarrow> string option \<Rightarrow> string" where
  "update_expr title content =
     ''SET updated_at = :u''
       @ (if title \<noteq> None then '', title = :t'' else [])
       @ (if content \<noteq> None then '', content = :c'' else [])"

definition expr_vals :: "string \<Rightarrow> string option \<Rightarrow> string option \<Rightarrow> item" where
  "expr_vals ts title content =
     (let vals = dict [('':u'', ts)] [];
          vals = (case title of None \<Rightarrow> vals | Some t \<Rightarrow> setitem vals '':t'' t);
          vals = (case content of None \<Rightarrow> vals | Some c \<Rightarrow> setitem vals '':c'' c)
      in vals)"

definition update ::
  "'s backend \<Rightarrow> store \<Rightarrow> string \<Rightarrow> string \<Rightarrow> string option \<Rightarrow> string option \<Rightarrow>
     string option \<Rightarrow> 's \<Rightarrow> (error + item) \<times> 's" where
  "update B self ts item_id title content user_id s =
     (if title = None \<and> content = None then
        (Inl (ValueError ''At least one of title or content must be provided for update''), s)
      else
        (case make_key self item_id user_id ''update the item'' of
           Inl err \<Rightarrow> (Inl err, s)
         | Inr key \<Rightarrow>
             (case update_item B key (update_expr title content)
                     (expr_vals ts title content) s of
                (Inl x, s') \<Rightarrow> (Inl (handle x), s')
              | (Inr None, s') \<Rightarrow> (Inr [], s')
              | (Inr (Some attrs), s') \<Rightarrow> (Inr attrs, s'))))"

text \<open>\<^verbatim>\<open>DynamoNotes.delete\<close>\<close>

definition delete ::
  "'s backend \<Rightarrow> store \<Rightarrow> string \<Rightarrow> string option \<Rightarrow> 's \<Rightarrow> (error + unit) \<times> 's" where
  "delete B self item_id user_id s =
     (case make_key self item_id user_id ''delete the item'' of
        Inl err \<Rightarrow> (Inl err, s)
      | Inr key \<Rightarrow>
          (case delete_item B key s of
             (Inl x, s') \<Rightarrow> (Inl (handle x), s')
           | (Inr _, s') \<Rightarrow> (Inr (), s')))"

section \<open>A reference table\<close>

text \<open>
  Modelled from the spec: the key-value table behind \<^verbatim>\<open>self.table\<close> is the DynamoDB
  service, which is not code of this repository. Section 6 of the specification gives
  what the store relies on: a table addressed by a partition key and an optional sort key,
  with put (upsert of the full item), get (by exact key), scan (all items, or those with
  a given value of an attribute), update (apply named attribute assignments to the item
  of a key, return the resulting item) and delete (by exact key). The model keeps the
  key schema, the rows, and the requests received (newest first). A request whose key
  does not name exactly the key attributes is refused with a \<open>ClientError\<close>, as is a put
  of an item without a value for a key attribute. An update of a key that has no row starts
  from the key itself. The order of the rows has no meaning.
\<close>

datatype call =
  PutItem item
| GetItem item
| Scan "(string \<times> string) option"
| UpdateItem item string item
| DeleteItem item

record table =
  hash_key :: string
  range_key :: "string option"
  rows :: "item list"
  calls :: "call list"

definition key_attrs :: "table \<Rightarrow> string list" where
  "key_attrs t = hash_key t # (case range_key t of None \<Rightarrow> [] | Some r \<Rightarrow> [r])"

definition valid_key :: "table \<Rightarrow> item \<Rightarrow> bool" where
  "valid_key t key = (set (map fst key) = set (key_attrs t))"

text \<open>\<open>has_key t key row\<close>: the row has the value of \<open>key\<close> at each key attribute.\<close>

definition has_key :: "table \<Rightarrow> item \<Rightarrow> item \<Rightarrow> bool" where
  "has_key t key row = list_all (\<lambda>a. map_of row a = map_of key a) (key_attrs t)"

definition received :: "call \<Rightarrow> table \<Rightarrow> table" where
  "received c t = t\<lparr>calls := c # calls t\<rparr>"

definition refused :: "py_exn" where
  "refused = ClientError ''ValidationException''"

text \<open>
  The update expressions understood: \<^verbatim>\<open>SET name = :value, name = :value, ...\<close>, with
  any number of spaces around names and placeholders.
\<close>

fun strip_prefix :: "string \<Rightarrow> string \<Rightarrow> string option" where
  "strip_prefix [] ys = Some ys"
| "strip_prefix (x # xs) [] = None"
| "strip_prefix (x # xs) (y # ys) = (if x = y then strip_prefix xs ys else None)"

fun split_char :: "char \<Rightarrow> string \<Rightarrow> string list" where
  "split_char c [] = [[]]"
| "split_char c (x # xs) =
     (if x = c then [] # split_char c xs
      else (case split_char c xs of
              [] \<Rightarrow> [[x]]
            | w # ws \<Rightarrow> (x # w) # ws))"

definition trim :: "string \<Rightarrow> string" where
  "trim s = rev (dropWhile (\<lambda>c. c = CHR '' '') (rev (dropWhile (\<lambda>c. c = CHR '' '') s)))"

definition parse_assignment :: "string \<Rightarrow> (string \<times> string) option" where
  "parse_assignment a =
     (case map trim (split_char (CHR ''='') a) of
        [name, placeholder] \<Rightarrow>
          if name \<noteq> [] \<and> placeholder \<noteq> [] then Some (name, placeholder) else None
      | _ \<Rightarrow> None)"

definition parse_update :: "string \<Rightarrow> (string \<times> string) list option" where
  "parse_update e =
     (case strip_prefix ''SET '' e of
        None \<Rightarrow> None
      | Some rest \<Rightarrow> those (map parse_assignment (split_char (CHR '','') rest)))"

text \<open>The assignments applied to a row in order; \<open>None\<close> when a placeholder has no value.\<close>

fun apply_set :: "(string \<times> string) list \<Rightarrow> item \<Rightarrow> item \<Rightarrow> item option" where
  "apply_set [] vals row = Some row"
| "apply_set ((name, placeholder) # as) vals row =
     (case map_of vals placeholder of
        None \<Rightarrow> None
      | Some v \<Rightarrow> apply_set as vals (setitem row name v))"

text \<open>Modelled from the spec: put, an upsert of the full item under its key.\<close>

definition ddb_put_item :: "item \<Rightarrow> table \<Rightarrow> (py_exn + unit) \<times> table" where
  "ddb_put_item item t0 =
     (let t = received (PutItem item) t0
      in if list_all (\<lambda>a. map_of item a \<noteq> None) (key_attrs t) then
           (Inr (), t\<lparr>rows := item # filter (\<lambda>r. \<not> has_key t item r) (rows t)\<rparr>)
         else (Inl refused, t))"

text \<open>Modelled from the spec: get, by exact key; \<open>None\<close> when no row has the key.\<close>

definition ddb_get_item :: "item \<Rightarrow> table \<Rightarrow> (py_exn + item option) \<times> table" where
  "ddb_get_item key t0 =
     (let t = received (GetItem key) t0
      in if valid_key t key then (Inr (find (has_key t key) (rows t)), t)
         else (Inl refused, t))"

text \<open>Modelled from the spec: scan, of all rows or of those with the value at the attribute.\<close>

definition ddb_scan ::
  "(string \<times> string) option \<Rightarrow> table \<Rightarrow> (py_exn + item list option) \<times> table" where
  "ddb_scan flt t0 =
     (let t = received (Scan flt) t0
      in (Inr (Some (case flt of
                       None \<Rightarrow> rows t
                     | Some (a, v) \<Rightarrow> filter (\<lambda>r. map_of r a = Some v) (rows t))), t))"

text \<open>
  Modelled from the spec: update, which applies the assignments to the row of the key and
  returns the resulting row.
\<close>

definition ddb_update_item ::
  "item \<Rightarrow> string \<Rightarrow> item \<Rightarrow> table \<Rightarrow> (py_exn + item option) \<times> table" where
  "ddb_update_item key expr vals t0 =
     (let t = received (UpdateItem key expr vals) t0
      in if \<not> valid_key t key then (Inl refused, t)
         else
           (case parse_update expr of
              None \<Rightarrow> (Inl refused, t)
            | Some as \<Rightarrow>
                (case apply_set as vals
                        (case find (has_key t key) (rows t) of None \<Rightarrow> key | Some r \<Rightarrow> r) of
                   None \<Rightarrow> (Inl refused, t)
                 | Some new \<Rightarrow>
                     (Inr (Some new),
                      t\<lparr>rows := new # filter (\<lambda>r. \<not> has_key t key r) (rows t)\<rparr>))))"

text \<open>Modelled from the spec: delete, by exact key; no row with the key is not an error.\<close>

definition ddb_delete_item :: "item \<Rightarrow> table \<Rightarrow> (py_exn + unit) \<times> table" where
  "ddb_delete_item key t0 =
     (let t = received (DeleteItem key) t0
      in if valid_key t key then
           (Inr (), t\<lparr>rows := filter (\<lambda>r. \<not> has_key t key r) (rows t)\<rparr>)
         else (Inl refused, t))"

definition ddb :: "table backend" where
  "ddb = \<lparr>put_item = ddb_put_item, get_item = ddb_get_item, scan = ddb_scan,
          update_item = ddb_update_item, delete_item = ddb_delete_item\<rparr>"

text \<open>What the constructor reads from this table: its key schema, as boto3 presents it.\<close>

definition ddb_env :: "table \<Rightarrow> env" where
  "ddb_env t =
     \<lparr>boto3_installed = True, resource_error = None,
      key_schema_attr = Inr (KsList
        (KsDict [(''AttributeName'', hash_key t), (''KeyType'', ''HASH'')]
         # (case range_key t of
              None \<Rightarrow> []
            | Some r \<Rightarrow> [KsDict [(''AttributeName'', r), (''KeyType'', ''RANGE'')]]))),
      describe_table = Inl (OtherException ''not called'')\<rparr>"

text \<open>
  The attribute names the store writes besides the key, and the condition that a store
  is attached to a table: its key names are those of the table's key schema, they differ
  from each other and they are not names of the other attributes of a note.
\<close>

definition note_fields :: "string list" where
  "note_fields = [''title'', ''content'', ''created_at'', ''updated_at'']"

definition attached :: "store \<Rightarrow> table \<Rightarrow> bool" where
  "attached self t =
     (hash_key t = key_name self \<and> range_key t = nonempty (sort_key_name self)
      \<and> distinct (key_attrs t @ note_fields))"

text \<open>
  The value that create writes at attribute \<open>a\<close> of the item with identifier \<open>i\<close>: the
  later assignments of the source win, so the sort key comes first and the partition key
  last.
\<close>

definition written ::
  "store \<Rightarrow> string \<Rightarrow> string \<Rightarrow> string \<Rightarrow> string option \<Rightarrow> string \<Rightarrow> string \<Rightarrow> string option" where
  "written self ts title content user_id i a =
     (if nonempty (sort_key_name self) = Some a then user_id
      else if a = ''updated_at'' then Some ts
      else if a = ''created_at'' then Some ts
      else if a = ''content'' then Some content
      else if a = ''title'' then Some title
      else if a = key_name self then Some i
      else None)"

text \<open>Whether discovery got as far as reading a first key-schema entry that is a dict.\<close>

fun first_entry_read :: "py_exn + ks_val \<Rightarrow> bool" where
  "first_entry_read (Inr (KsList (KsDict d # es))) = True"
| "first_entry_read _ = False"

section \<open>The web form handler for adding a note\<close>

text \<open>
  The \<^verbatim>\<open>add\<close> route of \<^verbatim>\<open>_make_flask_app\<close>. \<open>form\<close> is \<^verbatim>\<open>request.form\<close>; an
  exception of \<^verbatim>\<open>store.create\<close> is not caught in the route.
\<close>

datatype response = Response string nat | Redirect string

definition add_route ::
  "'s backend \<Rightarrow> store \<Rightarrow> string option \<Rightarrow> string \<Rightarrow> string \<Rightarrow> (string \<times> string) list \<Rightarrow>
     's \<Rightarrow> (error + response) \<times> 's" where
  "add_route B store default_user_id ts uuid form s =
     (let title = map_of form ''title'';
          content = map_of form ''content'';
          user_id = (if truthy (map_of form ''user_id'') then map_of form ''user_id''
                     else default_user_id);
          client_id = nonempty (map_of form ''client_id'')
      in case (nonempty title, nonempty content) of
           (Some t, Some c) \<Rightarrow>
             (case create B store ts uuid t c user_id client_id s of
                (Inl err, s') \<Rightarrow> (Inl err, s')
              | (Inr _, s') \<Rightarrow> (Inr (Redirect ''index''), s'))
         | _ \<Rightarrow> (Inr (Response ''title and content required'' 400), s))"

section \<open>Example stores and tables\<close>

text \<open>A table with partition key \<open>id\<close> only, and one with the sort key \<open>user_id\<close>.\<close>

definition plain_store :: store where
  "plain_store = \<lparr>key_name = ''id'', sort_key_name = None\<rparr>"

definition plain_table :: table where
  "plain_table = \<lparr>hash_key = ''id'', range_key = None, rows = [], calls = []\<rparr>"

definition user_store :: store where
  "user_store = \<lparr>key_name = ''id'', sort_key_name = Some ''user_id''\<rparr>"

definition user_table :: table where
  "user_table =
     \<lparr>hash_key = ''id'', range_key = Some ''user_id'',
      rows = [[(''id'', ''n1''), (''title'', ''Groceries''), (''content'', ''Milk, eggs''),
               (''created_at'', ''2024-05-01T10:00:00+00:00''),
               (''updated_at'', ''2024-05-01T10:00:00+00:00''), (''user_id'', ''alice'')],
              [(''id'', ''n2''), (''title'', ''Draft''), (''content'', ''untitled''),
               (''created_at'', ''2024-05-02T09:30:00+00:00''),
               (''updated_at'', ''2024-05-02T09:30:00+00:00''), (''user_id'', [])]],
      calls = []\<rparr>"

text \<open>A table stub that raises on every request.\<close>

definition failing :: "unit backend" where
  "failing =
     \<lparr>put_item = (\<lambda>item s. (Inl (BotoCoreError ''unreachable''), s)),
      get_item = (\<lambda>key s. (Inl (BotoCoreError ''unreachable''), s)),
      scan = (\<lambda>flt s. (Inl (BotoCoreError ''unreachable''), s)),
      update_item = (\<lambda>key expr vals s. (Inl (BotoCoreError ''unreachable''), s)),
      delete_item = (\<lambda>key s. (Inl (BotoCoreError ''unreachable''), s))\<rparr>"


text \<open>A table that cannot be described: every attempt to read its key schema raises.\<close>

definition unreachable_env :: env where
  "unreachable_env =
     \<lparr>boto3_installed = True, resource_error = None,
      key_schema_attr = Inl (ClientError ''ResourceNotFoundException''),
      describe_table = Inl (ClientError ''ResourceNotFoundException'')\<rparr>"

section \<open>Auxiliary facts\<close>

subsection \<open>Dicts and update expressions\<close>

lemma map_of_setitem: "map_of (setitem d k v) = (map_of d)(k \<mapsto> v)"
  by (induction d) (auto simp: fun_eq_iff)

lemma map_of_dict:
  "map_of (dict kvs d) = fold (\<lambda>(k, v) m. m(k \<mapsto> v)) kvs (map_of d)"
  by (induction kvs d rule: dict.induct) (simp_all add: map_of_setitem)

lemma parse_update_title:
  "parse_update (update_expr (Some a) None) = Some [(''updated_at'', '':u''), (''title'', '':t'')]"
  by (simp add: update_expr_def parse_update_def parse_assignment_def trim_def)

lemma parse_update_content:
  "parse_update (update_expr None (Some b)) = Some [(''updated_at'', '':u''), (''content'', '':c'')]"
  by (simp add: update_expr_def parse_update_def parse_assignment_def trim_def)

lemma parse_update_both:
  "parse_update (update_expr (Some a) (Some b)) =
     Some [(''updated_at'', '':u''), (''title'', '':t''), (''content'', '':c'')]"
  by (simp add: update_expr_def parse_update_def parse_assignment_def trim_def)


subsection \<open>Keys and the created item\<close>

lemma make_key_missing:
  "nonempty (sort_key_name self) = Some sk \<Longrightarrow>
   make_key self i None h =
     Inl (StorageError (''Table has sort key '' @ quoted sk @ ''; provide --user-id to '' @ h))"
  by (simp add: make_key_def)

lemma make_key_sort:
  "nonempty (sort_key_name self) = Some sk \<Longrightarrow>
   make_key self i (Some u) h = Inr (dict [(key_name self, i), (sk, u)] [])"
  by (simp add: make_key_def)

lemma create_missing:
  assumes "nonempty (sort_key_name self) = Some sk" and "nonempty user_id = None"
  shows "create B self ts uuid title content user_id item_id s =
     (Inl (StorageError (''Table requires sort key '' @ quoted sk @ ''; provide user_id'')), s)"
  using assms by (simp add: create_def Let_def del: dict.simps)

lemma create_item:
  assumes "nonempty (sort_key_name self) = None \<or> nonempty user_id \<noteq> None"
  shows "\<exists>it. create B self ts uuid title content user_id item_id s =
       (case put_item B it s of
          (Inl x, s') \<Rightarrow> (Inl (handle x), s') | (Inr _, s') \<Rightarrow> (Inr it, s'))
     \<and> map_of it = written self ts title content user_id (or_default item_id uuid)"
proof (cases "nonempty (sort_key_name self)")
  case None
  let ?it = "dict [(key_name self, or_default item_id uuid), (''title'', title),
          (''content'', content), (''created_at'', ts), (''updated_at'', ts)] []"
  have "create B self ts uuid title content user_id item_id s =
       (case put_item B ?it s of
          (Inl x, s') \<Rightarrow> (Inl (handle x), s') | (Inr _, s') \<Rightarrow> (Inr ?it, s'))"
    by (simp add: create_def None Let_def del: dict.simps setitem.simps)
  moreover have "map_of ?it = written self ts title content user_id (or_default item_id uuid)"
    by (simp add: None map_of_dict written_def fun_eq_iff)
  ultimately show ?thesis by blast
next
  case (Some sk)
  with assms obtain u where u: "nonempty user_id = Some u" by auto
  then have uid: "user_id = Some u" by (cases user_id rule: nonempty.cases) simp_all
  let ?it = "setitem (dict [(key_name self, or_default item_id uuid), (''title'', title),
          (''content'', content), (''created_at'', ts), (''updated_at'', ts)] []) sk u"
  have "create B self ts uuid title content user_id item_id s =
       (case put_item B ?it s of
          (Inl x, s') \<Rightarrow> (Inl (handle x), s') | (Inr _, s') \<Rightarrow> (Inr ?it, s'))"
    by (simp add: create_def Some u Let_def del: dict.simps setitem.simps)
  moreover have "map_of ?it = written self ts title content user_id (or_default item_id uuid)"
    by (simp add: Some uid map_of_dict map_of_setitem written_def fun_eq_iff)
  ultimately show ?thesis by blast
qed


subsection \<open>Discovery\<close>

lemma try_discover_unread:
  "\<not> first_entry_read (load_key_schema e) \<Longrightarrow> snd (try_discover e self) = self"
  by (cases "load_key_schema e" rule: first_entry_read.cases) (simp_all add: try_discover_def)


text \<open>
  When an entry that is not a dict follows well-formed entries, the loop ends with the
  exception and with the names assigned from the entries before it.
\<close>

lemma for_entries_failure:
  "for_entries (map KsDict ds @ KsOther # es) self =
     (Some (OtherException ''AttributeError''), snd (for_entries (map KsDict ds) self))"
  by (induction ds arbitrary: self) simp_all


subsection \<open>The reference table\<close>

lemma key_attrs_received [simp]: "key_attrs (received c t) = key_attrs t"
  by (simp add: key_attrs_def received_def)

lemma valid_key_received [simp]: "valid_key (received c t) key = valid_key t key"
  by (simp add: valid_key_def)

lemma has_key_received [simp]: "has_key (received c t) = has_key t"
  by (simp add: has_key_def fun_eq_iff)

lemma rows_received [simp]: "rows (received c t) = rows t"
  by (simp add: received_def)

lemma key_attrs_rows [simp]: "key_attrs (t\<lparr>rows := rs\<rparr>) = key_attrs t"
  by (simp add: key_attrs_def)

lemma valid_key_rows [simp]: "valid_key (t\<lparr>rows := rs\<rparr>) key = valid_key t key"
  by (simp add: valid_key_def)

lemma has_key_rows [simp]: "has_key (t\<lparr>rows := rs\<rparr>) = has_key t"
  by (simp add: has_key_def fun_eq_iff)

lemma attached_rows [simp]: "attached self (t\<lparr>rows := rs\<rparr>) = attached self t"
  by (simp add: attached_def)

lemma attached_received [simp]: "attached self (received c t) = attached self t"
  by (simp add: attached_def received_def key_attrs_def)

lemma attached_attrs:
  "attached self t \<Longrightarrow>
   key_attrs t = key_name self # (case nonempty (sort_key_name self) of None \<Rightarrow> [] | Some sk \<Rightarrow> [sk])"
  by (simp add: attached_def key_attrs_def)

lemma attached_names:
  assumes "attached self t" and "a \<in> set (key_attrs t)"
  shows "a \<noteq> ''title''" "a \<noteq> ''content''" "a \<noteq> ''created_at''" "a \<noteq> ''updated_at''"
  using assms by (auto simp: attached_def note_fields_def)

lemma attached_sort_name:
  "attached self t \<Longrightarrow> nonempty (sort_key_name self) = Some sk \<Longrightarrow> sk \<noteq> key_name self"
  by (auto simp: attached_def key_attrs_def)

lemma attached_written:
  assumes "attached self t" and "a \<in> set (key_attrs t)"
  shows "written self ts title content user_id i a =
           (if nonempty (sort_key_name self) = Some a then user_id else Some i)"
  using assms(2) attached_names [OF assms] assms(1)
  by (auto simp: written_def attached_attrs split: option.splits)

lemma written_fields:
  assumes "attached self t"
  shows "written self ts title content user_id i ''title'' = Some title"
    and "written self ts title content user_id i ''content'' = Some content"
    and "written self ts title content user_id i ''created_at'' = Some ts"
    and "written self ts title content user_id i ''updated_at'' = Some ts"
    and "written self ts title content user_id i (key_name self) = Some i"
proof -
  have names: "sk \<noteq> ''title''" "sk \<noteq> ''content''" "sk \<noteq> ''created_at''"
    "sk \<noteq> ''updated_at''" "sk \<noteq> key_name self"
    if "nonempty (sort_key_name self) = Some sk" for sk
    using that attached_names [OF assms, of sk] assms
    by (auto simp: attached_attrs dest: attached_sort_name)
  have kn: "key_name self \<noteq> ''title''" "key_name self \<noteq> ''content''"
    "key_name self \<noteq> ''created_at''" "key_name self \<noteq> ''updated_at''"
    using attached_names [OF assms, of "key_name self"] assms by (simp_all add: attached_attrs)
  show "written self ts title content user_id i ''title'' = Some title"
    and "written self ts title content user_id i ''content'' = Some content"
    and "written self ts title content user_id i ''created_at'' = Some ts"
    and "written self ts title content user_id i ''updated_at'' = Some ts"
    and "written self ts title content user_id i (key_name self) = Some i"
    using names kn by (auto simp: written_def)
qed

lemma attached_key:
  assumes "attached self t" and "nonempty (sort_key_name self) = None \<or> user_id \<noteq> None"
  shows "\<exists>key. (\<forall>h. make_key self i user_id h = Inr key) \<and> valid_key t key
     \<and> (\<forall>a \<in> set (key_attrs t).
          map_of key a = (if nonempty (sort_key_name self) = Some a then user_id else Some i))"
proof (cases "nonempty (sort_key_name self)")
  case None
  show ?thesis
    by (rule exI [of _ "[(key_name self, i)]"])
       (use assms(1) None in \<open>simp add: make_key_def valid_key_def attached_attrs\<close>)
next
  case (Some sk)
  with assms obtain u where u: "user_id = Some u" by auto
  have ne: "sk \<noteq> key_name self" using assms(1) Some by (rule attached_sort_name)
  show ?thesis
    by (rule exI [of _ "[(key_name self, i), (sk, u)]"])
       (use assms(1) Some u ne in \<open>auto simp add: make_key_def valid_key_def attached_attrs\<close>)
qed

lemma has_key_attached:
  assumes "attached self t"
    and "\<forall>a \<in> set (key_attrs t).
       map_of key a = (if nonempty (sort_key_name self) = Some a then user_id else Some i)"
  shows "has_key t key r \<longleftrightarrow>
     map_of r (key_name self) = Some i
     \<and> (case nonempty (sort_key_name self) of None \<Rightarrow> True | Some sk \<Rightarrow> map_of r sk = user_id)"
  using assms attached_sort_name [OF assms(1)]
  by (auto simp: has_key_def attached_attrs split: option.splits)

lemma create_attached:
  assumes att: "attached self t"
    and sk: "nonempty (sort_key_name self) = None \<or> nonempty user_id \<noteq> None"
  shows "\<exists>it. create ddb self ts uuid title content user_id item_id t =
       (Inr it, (received (PutItem it) t)\<lparr>rows := it # filter (\<lambda>r. \<not> has_key t it r) (rows t)\<rparr>)
     \<and> map_of it = written self ts title content user_id (or_default item_id uuid)"
proof -
  obtain it where c: "create ddb self ts uuid title content user_id item_id t =
       (case put_item ddb it t of
          (Inl x, s') \<Rightarrow> (Inl (handle x), s') | (Inr _, s') \<Rightarrow> (Inr it, s'))"
    and m: "map_of it = written self ts title content user_id (or_default item_id uuid)"
    using create_item [OF sk, where B = ddb and s = t and ts = ts and uuid = uuid
        and title = title and content = content and item_id = item_id] by blast
  have u: "nonempty (sort_key_name self) = None \<or> user_id \<noteq> None"
    using sk by auto
  have "map_of it a \<noteq> None" if "a \<in> set (key_attrs t)" for a
    using u by (auto simp: m attached_written [OF att that])
  then have "list_all (\<lambda>a. map_of it a \<noteq> None) (key_attrs t)"
    by (simp add: list_all_iff)
  then have "put_item ddb it t =
      (Inr (), (received (PutItem it) t)\<lparr>rows := it # filter (\<lambda>r. \<not> has_key t it r) (rows t)\<rparr>)"
    by (simp add: ddb_def ddb_put_item_def Let_def)
  with c m show ?thesis by simp
qed

lemma get_attached:
  assumes "valid_key t key" and "make_key self i user_id ''identify the item'' = Inr key"
  shows "get ddb self i user_id t = (Inr (find (has_key t key) (rows t)), received (GetItem key) t)"
  using assms by (simp add: get_def ddb_def ddb_get_item_def Let_def)

lemma delete_attached:
  assumes "valid_key t key" and "make_key self i user_id ''delete the item'' = Inr key"
  shows "delete ddb self i user_id t =
     (Inr (), (received (DeleteItem key) t)\<lparr>rows := filter (\<lambda>r. \<not> has_key t key r) (rows t)\<rparr>)"
  using assms by (simp add: delete_def ddb_def ddb_delete_item_def Let_def)

lemma list_attached:
  "\<exists>t'. list_notes ddb self user_id t =
     (Inr (case (nonempty user_id, nonempty (sort_key_name self)) of
             (Some u, Some sk) \<Rightarrow> filter (\<lambda>r. map_of r sk = Some u) (rows t)
           | _ \<Rightarrow> rows t), t')"
  by (simp add: list_notes_def ddb_def ddb_scan_def Let_def split: option.splits)


text \<open>What an update request leaves at each attribute of the row of its key.\<close>

lemma update_item_set:
  assumes "valid_key t key" and "title \<noteq> None \<or> content \<noteq> None"
  shows "\<exists>new. update_item ddb key (update_expr title content) (expr_vals ts title content) t =
       (Inr (Some new),
        (received (UpdateItem key (update_expr title content) (expr_vals ts title content)) t)
          \<lparr>rows := new # filter (\<lambda>r. \<not> has_key t key r) (rows t)\<rparr>)
     \<and> (\<forall>a. map_of new a =
          (if a = ''content'' \<and> content \<noteq> None then content
           else if a = ''title'' \<and> title \<noteq> None then title
           else if a = ''updated_at'' then Some ts
           else map_of (case find (has_key t key) (rows t) of None \<Rightarrow> key | Some r \<Rightarrow> r) a))"
proof -
  let ?old = "case find (has_key t key) (rows t) of None \<Rightarrow> key | Some r \<Rightarrow> r"
  consider (t) x where "title = Some x" "content = None"
    | (c) y where "title = None" "content = Some y"
    | (b) x y where "title = Some x" "content = Some y"
    using assms(2) by (cases title; cases content) auto
  then show ?thesis
  proof cases
    case t
    have "apply_set [(''updated_at'', '':u''), (''title'', '':t'')] (expr_vals ts title content) ?old
        = Some (setitem (setitem ?old ''updated_at'' ts) ''title'' x)"
      by (simp add: expr_vals_def t map_of_setitem del: setitem.simps)
    then show ?thesis
      using assms(1)
      by (simp add: ddb_def ddb_update_item_def Let_def parse_update_title [of x, folded t(1)]
          map_of_setitem t(2) del: setitem.simps) (simp add: t)
  next
    case c
    have "apply_set [(''updated_at'', '':u''), (''content'', '':c'')] (expr_vals ts title content) ?old
        = Some (setitem (setitem ?old ''updated_at'' ts) ''content'' y)"
      by (simp add: expr_vals_def c map_of_setitem del: setitem.simps)
    then show ?thesis
      using assms(1)
      by (simp add: ddb_def ddb_update_item_def Let_def parse_update_content [of y, folded c(2)]
          map_of_setitem c(1) del: setitem.simps) (simp add: c)
  next
    case b
    have "apply_set [(''updated_at'', '':u''), (''title'', '':t''), (''content'', '':c'')]
          (expr_vals ts title content) ?old
        = Some (setitem (setitem (setitem ?old ''updated_at'' ts) ''title'' x) ''content'' y)"
      by (simp add: expr_vals_def b map_of_setitem del: setitem.simps)
    then show ?thesis
      using assms(1)
      by (simp add: ddb_def ddb_update_item_def Let_def
          parse_update_both [of x y, folded b(1) b(2)]
          map_of_setitem del: setitem.simps) (simp add: b)
  qed
qed

lemma update_attached:
  assumes vk: "valid_key t key" and f: "title \<noteq> None \<or> content \<noteq> None"
    and mk: "make_key self i user_id ''update the item'' = Inr key"
  shows "\<exists>new c. update ddb self ts i title content user_id t =
       (Inr new, (received c t)\<lparr>rows := new # filter (\<lambda>r. \<not> has_key t key r) (rows t)\<rparr>)
     \<and> (\<forall>a. map_of new a =
          (if a = ''content'' \<and> content \<noteq> None then content
           else if a = ''title'' \<and> title \<noteq> None then title
           else if a = ''updated_at'' then Some ts
           else map_of (case find (has_key t key) (rows t) of None \<Rightarrow> key | Some r \<Rightarrow> r) a))"
proof -
  obtain new where u: "update_item ddb key (update_expr title content) (expr_vals ts title content) t =
       (Inr (Some new),
        (received (UpdateItem key (update_expr title content) (expr_vals ts title content)) t)
          \<lparr>rows := new # filter (\<lambda>r. \<not> has_key t key r) (rows t)\<rparr>)"
    and m: "\<forall>a. map_of new a =
          (if a = ''content'' \<and> content \<noteq> None then content
           else if a = ''title'' \<and> title \<noteq> None then title
           else if a = ''updated_at'' then Some ts
           else map_of (case find (has_key t key) (rows t) of None \<Rightarrow> key | Some r \<Rightarrow> r) a)"
    using update_item_set [OF vk f, where ts = ts] by blast
  have "update ddb self ts i title content user_id t =
       (Inr new, (received (UpdateItem key (update_expr title content) (expr_vals ts title content)) t)
          \<lparr>rows := new # filter (\<lambda>r. \<not> has_key t key r) (rows t)\<rparr>)"
    using f by (simp add: update_def mk u)
  with m show ?thesis by blast
qed

lemma requests_served:
  assumes att: "attached self t"
  shows "\<exists>r t'. get ddb self i (Some u) t = (Inr r, t')"
    and "title \<noteq> None \<or> content \<noteq> None \<Longrightarrow>
         \<exists>it t'. update ddb self ts i title content (Some u) t = (Inr it, t')"
    and "\<exists>t'. delete ddb self i (Some u) t = (Inr (), t')"
proof -
  have u: "nonempty (sort_key_name self) = None \<or> Some u \<noteq> None"
    by simp
  obtain key where mk: "\<And>h. make_key self i (Some u) h = Inr key"
    and vk: "valid_key t key"
    using attached_key [OF att u, where i = i] by blast
  show "\<exists>r t'. get ddb self i (Some u) t = (Inr r, t')"
    by (simp add: get_attached [OF vk mk])
  show "\<exists>t'. delete ddb self i (Some u) t = (Inr (), t')"
    by (simp add: delete_attached [OF vk mk])
  show "\<exists>it t'. update ddb self ts i title content (Some u) t = (Inr it, t')"
    if "title \<noteq> None \<or> content \<noteq> None"
    using update_attached [OF vk that mk, where ts = ts] by blast
qed

lemma attached_user: "attached user_store user_table"
  by (simp add: attached_def user_store_def user_table_def key_attrs_def note_fields_def)

lemma attached_plain: "attached plain_store plain_table"
  by (simp add: attached_def plain_store_def plain_table_def key_attrs_def note_fields_def)


section \<open>The claims\<close>

subsection \<open>C1: a missing sort-key value\<close>

text \<open>
  The source has one exception class of its own, \<open>StorageError\<close>, and raises it both for a
  missing sort-key value and for a failure of the table. So the failure for a missing
  sort-key value is a \<open>StorageError\<close>, the kind the claim excludes: on the example table with
  sort key \<open>user_id\<close>, get without a sort-key value gives a \<open>StorageError\<close>, just as get on
  a table that raises a \<open>BotoCoreError\<close> does.
\<close>

theorem missing_sort_key_counterexample:
  "fst (get ddb user_store ''n1'' None user_table) =
     Inl (StorageError (''Table has sort key '' @ quoted ''user_id''
        @ ''; provide --user-id to identify the item''))
   \<and> fst (get failing user_store ''n1'' (Some ''alice'') ()) = Inl (StorageError ''unreachable'')"
  by (simp add: get_def make_key_def user_store_def failing_def)

text \<open>
  C1, as amended. On a store configured with a sort key, create, get, update (when given a
  title or a content) and delete each fail with a \<open>StorageError\<close> whose message names the
  sort key whenever no sort-key value is supplied (for create: none or the empty string),
  and they do so before any request to the table: for every table \<open>B\<close> and state \<open>s\<close> the
  state is returned as it was. With a sort-key value supplied (for create: a non-empty one)
  each of the four succeeds on the reference table to which the store is attached.
\<close>

theorem missing_sort_key:
  assumes sk: "nonempty (sort_key_name self) = Some sk"
  shows "(nonempty user_id = None \<longrightarrow>
            create B self ts uuid title content user_id item_id s =
              (Inl (StorageError (''Table requires sort key '' @ quoted sk
                 @ ''; provide user_id'')), s))
       \<and> get B self i None s =
            (Inl (StorageError (''Table has sort key '' @ quoted sk
               @ ''; provide --user-id to identify the item'')), s)
       \<and> (new_title \<noteq> None \<or> new_content \<noteq> None \<longrightarrow>
            update B self ts i new_title new_content None s =
              (Inl (StorageError (''Table has sort key '' @ quoted sk
                 @ ''; provide --user-id to update the item'')), s))
       \<and> delete B self i None s =
            (Inl (StorageError (''Table has sort key '' @ quoted sk
               @ ''; provide --user-id to delete the item'')), s)
       \<and> (attached self t \<longrightarrow>
            (u \<noteq> [] \<longrightarrow>
               (\<exists>it t'. create ddb self ts uuid title content (Some u) item_id t = (Inr it, t')))
          \<and> (\<exists>r t'. get ddb self i (Some u) t = (Inr r, t'))
          \<and> (new_title \<noteq> None \<or> new_content \<noteq> None \<longrightarrow>
               (\<exists>it t'. update ddb self ts i new_title new_content (Some u) t = (Inr it, t')))
          \<and> (\<exists>t'. delete ddb self i (Some u) t = (Inr (), t')))"
proof -
  have "create B self ts uuid title content user_id item_id s =
      (Inl (StorageError (''Table requires sort key '' @ quoted sk @ ''; provide user_id'')), s)"
    if "nonempty user_id = None"
    using sk that by (rule create_missing)
  moreover have "get B self i None s =
      (Inl (StorageError (''Table has sort key '' @ quoted sk
         @ ''; provide --user-id to identify the item'')), s)"
    by (simp add: get_def make_key_missing [OF sk])
  moreover have "update B self ts i new_title new_content None s =
      (Inl (StorageError (''Table has sort key '' @ quoted sk
         @ ''; provide --user-id to update the item'')), s)"
    if "new_title \<noteq> None \<or> new_content \<noteq> None"
    using that by (simp add: update_def make_key_missing [OF sk])
  moreover have "delete B self i None s =
      (Inl (StorageError (''Table has sort key '' @ quoted sk
         @ ''; provide --user-id to delete the item'')), s)"
    by (simp add: delete_def make_key_missing [OF sk])
  moreover have "\<exists>it t'. create ddb self ts uuid title content (Some u) item_id t = (Inr it, t')"
    if "attached self t" "u \<noteq> []"
  proof -
    have "nonempty (Some u) \<noteq> None"
      using that(2) by (cases u) simp_all
    then have "nonempty (sort_key_name self) = None \<or> nonempty (Some u) \<noteq> None"
      by simp
    from create_attached [OF that(1) this, where ts = ts and uuid = uuid and title = title
        and content = content and item_id = item_id]
    show ?thesis by blast
  qed
  ultimately show ?thesis
    using requests_served(1) [where self = self and t = t and i = i and u = u]
      requests_served(2) [where self = self and t = t and i = i and u = u and ts = ts
        and title = new_title and content = new_content]
      requests_served(3) [where self = self and t = t and i = i and u = u]
    by blast
qed

theorem missing_sort_key_witness:
  "nonempty (sort_key_name user_store) = Some ''user_id''
   \<and> attached user_store user_table
   \<and> get ddb user_store ''n1'' None user_table =
       (Inl (StorageError (''Table has sort key '' @ quoted ''user_id''
          @ ''; provide --user-id to identify the item'')), user_table)
   \<and> delete ddb user_store ''n1'' None user_table =
       (Inl (StorageError (''Table has sort key '' @ quoted ''user_id''
          @ ''; provide --user-id to delete the item'')), user_table)
   \<and> update ddb user_store ''2024-05-03T08:00:00+00:00'' ''n1'' (Some ''Shopping'') None None
        user_table =
       (Inl (StorageError (''Table has sort key '' @ quoted ''user_id''
          @ ''; provide --user-id to update the item'')), user_table)
   \<and> create ddb user_store ''2024-05-03T08:00:00+00:00'' ''7d9f'' ''Todo'' ''Call the bank''
        None None user_table =
       (Inl (StorageError (''Table requires sort key '' @ quoted ''user_id''
          @ ''; provide user_id'')), user_table)
   \<and> (\<exists>it t'. create ddb user_store ''2024-05-03T08:00:00+00:00'' ''7d9f'' ''Todo''
          ''Call the bank'' (Some ''alice'') None user_table = (Inr it, t'))
   \<and> (\<exists>r t'. get ddb user_store ''n1'' (Some ''alice'') user_table = (Inr r, t'))
   \<and> (\<exists>it t'. update ddb user_store ''2024-05-03T08:00:00+00:00'' ''n1'' (Some ''Shopping'')
          None (Some ''alice'') user_table = (Inr it, t'))
   \<and> (\<exists>t'. delete ddb user_store ''n1'' (Some ''alice'') user_table = (Inr (), t'))"
proof -
  have h: "nonempty (sort_key_name user_store) = Some ''user_id''"
    by (simp add: user_store_def)
  show ?thesis
    using h attached_user
      missing_sort_key [OF h, of None ddb "''2024-05-03T08:00:00+00:00''" "''7d9f''" "''Todo''"
        "''Call the bank''" None user_table "''n1''" "Some ''Shopping''" None user_table "''alice''"]
    by simp
qed


subsection \<open>C2: an update without fields\<close>

text \<open>
  C2. An update with neither title nor content fails with \<open>ValueError\<close> (the
  \<open>InvalidArgument\<close> of the specification) whatever the table, its state and the other
  arguments are, and the state of the table is returned as it was: no request reaches the
  table, not even on a table that would raise on every request.
\<close>

theorem update_without_fields:
  "update B self ts item_id None None user_id s =
     (Inl (ValueError ''At least one of title or content must be provided for update''), s)"
  by (simp add: update_def)

theorem update_without_fields_witness:
  "update failing user_store ''2024-05-03T08:00:00+00:00'' ''n1'' None None (Some ''alice'') () =
     (Inl (ValueError ''At least one of title or content must be provided for update''), ())"
  by (rule update_without_fields)


subsection \<open>C3: empty title or content\<close>

text \<open>
  create does not look at title and content. With both empty, on the table with partition
  key \<open>id\<close> only, it writes the note and returns it.
\<close>

theorem create_unvalidated_counterexample:
  "fst (create ddb plain_store ''2024-05-03T08:00:00+00:00'' ''7d9f'' [] [] None None plain_table) =
     Inr [(''id'', ''7d9f''), (''title'', []), (''content'', []),
          (''created_at'', ''2024-05-03T08:00:00+00:00''),
          (''updated_at'', ''2024-05-03T08:00:00+00:00'')]"
  by (simp add: create_def plain_store_def plain_table_def ddb_def ddb_put_item_def Let_def
      received_def key_attrs_def)


text \<open>
  C3, as amended. create accepts every title and content, the empty string included. With
  a sort-key value supplied where the store has a sort key, it sends the put request for
  the item with the title and content as given, whatever the table is, and its outcome is
  that of the request. On the reference table to which the store is attached it succeeds,
  returns an item with the title and content as given, and that item is a row of the table
  afterwards. It is the web form handler that requires both to be non-empty: it answers
  400 without calling create, whatever the table is.
\<close>

theorem create_unvalidated:
  assumes att: "attached self t"
    and sk: "nonempty (sort_key_name self) = None \<or> nonempty user_id \<noteq> None"
  shows "(\<exists>it. create B self ts uuid title content user_id item_id s =
              (case put_item B it s of
                 (Inl x, s') \<Rightarrow> (Inl (handle x), s')
               | (Inr _, s') \<Rightarrow> (Inr it, s'))
            \<and> map_of it = written self ts title content user_id (or_default item_id uuid))
       \<and> (\<exists>it t'. create ddb self ts uuid title content user_id item_id t = (Inr it, t')
            \<and> map_of it ''title'' = Some title \<and> map_of it ''content'' = Some content
            \<and> it \<in> set (rows t'))
       \<and> (nonempty (map_of form ''title'') = None \<or> nonempty (map_of form ''content'') = None \<longrightarrow>
            add_route B self default_user_id ts uuid form s =
              (Inr (Response ''title and content required'' 400), s))"
proof -
  obtain it where c: "create ddb self ts uuid title content user_id item_id t =
       (Inr it, (received (PutItem it) t)\<lparr>rows := it # filter (\<lambda>r. \<not> has_key t it r) (rows t)\<rparr>)"
    and m: "map_of it = written self ts title content user_id (or_default item_id uuid)"
    using create_attached [OF att sk, where ts = ts and uuid = uuid
        and title = title and content = content and item_id = item_id] by blast
  have "\<exists>it t'. create ddb self ts uuid title content user_id item_id t = (Inr it, t')
            \<and> map_of it ''title'' = Some title \<and> map_of it ''content'' = Some content
            \<and> it \<in> set (rows t')"
    using c by (simp add: m written_fields [OF att])
  moreover have "add_route B self default_user_id ts uuid form s =
              (Inr (Response ''title and content required'' 400), s)"
    if "nonempty (map_of form ''title'') = None \<or> nonempty (map_of form ''content'') = None"
    using that by (auto simp: add_route_def Let_def split: option.splits)
  ultimately show ?thesis
    using create_item [OF sk, where B = B and s = s and ts = ts and uuid = uuid
        and title = title and content = content and item_id = item_id]
    by blast
qed


theorem create_unvalidated_witness:
  "attached plain_store plain_table
   \<and> (nonempty (sort_key_name plain_store) = None \<or> nonempty None \<noteq> None)
   \<and> (\<exists>it. create failing plain_store ''2024-05-03T08:00:00+00:00'' ''7d9f'' [] [] None None () =
              (case put_item failing it () of
                 (Inl x, s') \<Rightarrow> (Inl (handle x), s')
               | (Inr _, s') \<Rightarrow> (Inr it, s'))
            \<and> map_of it = written plain_store ''2024-05-03T08:00:00+00:00'' [] [] None
                          (or_default None ''7d9f''))
   \<and> (\<exists>it t'. create ddb plain_store ''2024-05-03T08:00:00+00:00'' ''7d9f'' [] [] None None
                   plain_table = (Inr it, t')
            \<and> map_of it ''title'' = Some [] \<and> map_of it ''content'' = Some []
            \<and> it \<in> set (rows t'))
   \<and> add_route failing plain_store None ''2024-05-03T08:00:00+00:00'' ''7d9f''
         [(''title'', []), (''content'', ''Milk, eggs'')] () =
       (Inr (Response ''title and content required'' 400), ())"
proof -
  have sk: "nonempty (sort_key_name plain_store) = None \<or> nonempty None \<noteq> None"
    by (simp add: plain_store_def)
  have f: "nonempty (map_of [(''title'', []), (''content'', ''Milk, eggs'')] ''title'') = None
      \<or> nonempty (map_of [(''title'', []), (''content'', ''Milk, eggs'')] ''content'') = None"
    by simp
  show ?thesis
    using attached_plain sk f
      create_unvalidated [OF attached_plain sk, where B = failing and s = "()"
        and ts = "''2024-05-03T08:00:00+00:00''" and uuid = "''7d9f''" and title = "[]"
        and content = "[]" and item_id = None and default_user_id = None
        and form = "[(''title'', []), (''content'', ''Milk, eggs'')]"]
    by blast
qed

subsection \<open>C4: explicit key names\<close>

text \<open>
  C4. The claim does not hold for the partition key: the \<open>HASH\<close> branch of the discovery
  loop assigns the discovered name whether or not a name was given, while the \<open>RANGE\<close>
  branch keeps a given sort key name. Here the constructor is given the partition key
  name \<open>note_id\<close> on a table whose key schema names \<open>id\<close>, and the sort key name \<open>owner\<close>
  on a table whose key schema names \<open>user_id\<close>.
\<close>

theorem init_overrides_key_name:
  "init (ddb_env plain_table) (Some ''note_id'') None =
     Inr \<lparr>key_name = ''id'', sort_key_name = None\<rparr>
   \<and> init (ddb_env user_table) (Some ''note_id'') (Some ''owner'') =
     Inr \<lparr>key_name = ''id'', sort_key_name = Some ''owner''\<rparr>"
  by (simp add: init_def try_discover_def load_key_schema_def ddb_env_def plain_table_def
      user_table_def)

subsection \<open>C5: create, then get\<close>

text \<open>
  On a store with a sort key, create does not accept every supplied sort-key value: given
  the empty string it raises the \<open>StorageError\<close> for a missing sort key (the test is
  \<^verbatim>\<open>not user_id\<close>), so there is no item to get.
\<close>

theorem create_then_get_counterexample:
  "attached user_store user_table
   \<and> create ddb user_store ''2024-05-03T08:00:00+00:00'' ''7d9f'' ''Todo'' ''Call the bank''
         (Some []) None user_table =
       (Inl (StorageError (''Table requires sort key '' @ quoted ''user_id''
          @ ''; provide user_id'')), user_table)
   \<and> fst (get ddb user_store ''7d9f'' (Some []) user_table) = Inr None"
proof (intro conjI)
  show "attached user_store user_table"
    by (rule attached_user)
qed (simp_all add: create_def get_def make_key_def user_store_def ddb_def
      ddb_get_item_def Let_def valid_key_def key_attrs_def has_key_def user_table_def
      received_def)

text \<open>
  C5, as amended. On the reference table to which the store is attached, with a non-empty
  sort-key value supplied where the table has a sort key: create succeeds for every title
  and content, the item it returns carries the identifier (the one given, or the generated
  one), and get with that identifier and the same sort-key value returns an item with the
  title and content passed to create and with the \<open>created_at\<close> and \<open>updated_at\<close> of the
  item that create returned; it is that very item.
\<close>

theorem create_then_get:
  assumes att: "attached self t"
    and sk: "nonempty (sort_key_name self) = None \<or> nonempty user_id \<noteq> None"
  shows "\<exists>it t' got t''.
           create ddb self ts uuid title content user_id item_id t = (Inr it, t')
         \<and> map_of it (key_name self) = Some (or_default item_id uuid)
         \<and> get ddb self (or_default item_id uuid) user_id t' = (Inr (Some got), t'')
         \<and> map_of got ''title'' = Some title \<and> map_of got ''content'' = Some content
         \<and> map_of got ''created_at'' = map_of it ''created_at''
         \<and> map_of got ''updated_at'' = map_of it ''updated_at''
         \<and> got = it"
proof -
  let ?i = "or_default item_id uuid"
  obtain it where c: "create ddb self ts uuid title content user_id item_id t =
       (Inr it, (received (PutItem it) t)\<lparr>rows := it # filter (\<lambda>r. \<not> has_key t it r) (rows t)\<rparr>)"
    and m: "map_of it = written self ts title content user_id ?i"
    using create_attached [OF att sk, where ts = ts and uuid = uuid
        and title = title and content = content and item_id = item_id] by blast
  let ?t' = "(received (PutItem it) t)\<lparr>rows := it # filter (\<lambda>r. \<not> has_key t it r) (rows t)\<rparr>"
  have u: "nonempty (sort_key_name self) = None \<or> user_id \<noteq> None"
    using sk by auto
  obtain key where mk: "\<And>h. make_key self ?i user_id h = Inr key"
    and vk: "valid_key t key"
    and km: "\<forall>a \<in> set (key_attrs t).
       map_of key a = (if nonempty (sort_key_name self) = Some a then user_id else Some ?i)"
    using attached_key [OF att u, where i = "?i"] by blast
  have same: "has_key t key it"
    by (simp add: has_key_def list_all_iff km m attached_written [OF att])
  have g: "get ddb self ?i user_id ?t' = (Inr (Some it), received (GetItem key) ?t')"
    using vk mk same by (subst get_attached [where key = key]) simp_all
  show ?thesis using c g by (simp add: m written_fields [OF att])
qed

theorem create_then_get_witness:
  "attached user_store user_table
   \<and> (nonempty (sort_key_name user_store) = None \<or> nonempty (Some ''bob'') \<noteq> None)
   \<and> (\<exists>it t' got t''.
         create ddb user_store ''2024-05-03T08:00:00+00:00'' ''7d9f'' ''Todo'' ''Call the bank''
           (Some ''bob'') None user_table = (Inr it, t')
       \<and> map_of it (key_name user_store) = Some (or_default None ''7d9f'')
       \<and> get ddb user_store (or_default None ''7d9f'') (Some ''bob'') t' = (Inr (Some got), t'')
       \<and> map_of got ''title'' = Some ''Todo'' \<and> map_of got ''content'' = Some ''Call the bank''
       \<and> map_of got ''created_at'' = map_of it ''created_at''
       \<and> map_of got ''updated_at'' = map_of it ''updated_at''
       \<and> got = it)"
proof -
  have h: "nonempty (sort_key_name user_store) = None \<or> nonempty (Some ''bob'') \<noteq> None"
    by simp
  show ?thesis
    using attached_user h create_then_get [OF attached_user h] by blast
qed


subsection \<open>C6: create twice with the same key\<close>

text \<open>
  The claim does not hold for the empty string, as identifier or as sort-key value. An
  empty identifier is replaced by a generated one in each call
  (\<^verbatim>\<open>item_id or str(uuid.uuid4())\<close>), so two calls of create with the identifier \<^verbatim>\<open>""\<close>
  leave two items, neither with that identifier. And on a store with a sort key, create
  given the empty string as sort-key value raises instead of writing.
\<close>

theorem create_twice_counterexample:
  "attached plain_store plain_table
   \<and> fst (list_notes ddb plain_store None
          (snd (create ddb plain_store ''2024-05-03T08:05:00+00:00'' ''11aa'' ''Second''
             ''new text'' None (Some [])
             (snd (create ddb plain_store ''2024-05-03T08:00:00+00:00'' ''7d9f'' ''First''
                ''old text'' None (Some []) plain_table))))) =
       Inr [[(''id'', ''11aa''), (''title'', ''Second''), (''content'', ''new text''),
             (''created_at'', ''2024-05-03T08:05:00+00:00''),
             (''updated_at'', ''2024-05-03T08:05:00+00:00'')],
            [(''id'', ''7d9f''), (''title'', ''First''), (''content'', ''old text''),
             (''created_at'', ''2024-05-03T08:00:00+00:00''),
             (''updated_at'', ''2024-05-03T08:00:00+00:00'')]]
   \<and> create ddb user_store ''2024-05-03T08:00:00+00:00'' ''7d9f'' ''First'' ''old text''
         (Some []) (Some ''n1'') user_table =
       (Inl (StorageError (''Table requires sort key '' @ quoted ''user_id''
          @ ''; provide user_id'')), user_table)"
proof (intro conjI)
  show "attached plain_store plain_table"
    by (rule attached_plain)
qed (simp_all add: create_def list_notes_def plain_store_def plain_table_def
      user_store_def ddb_def ddb_put_item_def ddb_scan_def Let_def received_def key_attrs_def
      has_key_def)

text \<open>
  C6, as amended. On the reference table to which the store is attached, two calls of
  create with the same explicit non-empty identifier \<open>i\<close> (and, where the table has a sort
  key, the same non-empty sort-key value) leave one item with that key: list with that
  sort-key value returns exactly one item whose identifier is \<open>i\<close>, the item the second
  call returned, with the second call's title and content.
\<close>

theorem create_twice:
  assumes att: "attached self t"
    and sk: "nonempty (sort_key_name self) = None \<or> nonempty user_id \<noteq> None"
    and i: "nonempty item_id = Some i"
    and c1: "create ddb self ts1 uuid1 title1 content1 user_id item_id t = (r1, t1)"
    and c2: "create ddb self ts2 uuid2 title2 content2 user_id item_id t1 = (r2, t2)"
    and l: "list_notes ddb self user_id t2 = (r3, t3)"
  shows "\<exists>it2 items. r2 = Inr it2 \<and> r3 = Inr items
           \<and> filter (\<lambda>r. map_of r (key_name self) = Some i) items = [it2]
           \<and> map_of it2 ''title'' = Some title2 \<and> map_of it2 ''content'' = Some content2"
proof -
  have id: "or_default item_id u = i" for u
    using i by (cases item_id rule: nonempty.cases) auto
  obtain it1 where t1: "t1 = (received (PutItem it1) t)\<lparr>rows := it1 # filter (\<lambda>r. \<not> has_key t it1 r) (rows t)\<rparr>"
    using create_attached [OF att sk, where ts = ts1 and uuid = uuid1
        and title = title1 and content = content1 and item_id = item_id] c1 by auto
  have att1: "attached self t1" using att by (simp add: t1)
  obtain it2 where r2: "r2 = Inr it2"
    and t2: "t2 = (received (PutItem it2) t1)\<lparr>rows := it2 # filter (\<lambda>r. \<not> has_key t1 it2 r) (rows t1)\<rparr>"
    and m: "map_of it2 = written self ts2 title2 content2 user_id i"
    using create_attached [OF att1 sk, where ts = ts2 and uuid = uuid2
        and title = title2 and content = content2 and item_id = item_id] c2 by (auto simp: id)
  have u: "nonempty (sort_key_name self) = None \<or> user_id \<noteq> None"
    using sk by auto
  have hk: "has_key t1 it2 r \<longleftrightarrow>
     map_of r (key_name self) = Some i
     \<and> (case nonempty (sort_key_name self) of None \<Rightarrow> True | Some sk \<Rightarrow> map_of r sk = user_id)" for r
    by (rule has_key_attached [OF att1]) (simp add: m attached_written [OF att1])
  have own: "map_of it2 (key_name self) = Some i"
    by (simp add: m written_fields [OF att])
  obtain t' where "list_notes ddb self user_id t2 =
     (Inr (case (nonempty user_id, nonempty (sort_key_name self)) of
             (Some u, Some sk) \<Rightarrow> filter (\<lambda>r. map_of r sk = Some u) (rows t2)
           | _ \<Rightarrow> rows t2), t')"
    using list_attached by blast
  with l have r3: "r3 = Inr (case (nonempty user_id, nonempty (sort_key_name self)) of
             (Some u, Some sk) \<Rightarrow> filter (\<lambda>r. map_of r sk = Some u) (rows t2)
           | _ \<Rightarrow> rows t2)"
    by simp
  have "filter (\<lambda>r. map_of r (key_name self) = Some i)
          (case (nonempty user_id, nonempty (sort_key_name self)) of
             (Some u, Some sk) \<Rightarrow> filter (\<lambda>r. map_of r sk = Some u) (rows t2)
           | _ \<Rightarrow> rows t2) = [it2]"
  proof (cases "nonempty (sort_key_name self)")
    case None
    then show ?thesis
      by (auto simp: t2 own hk filter_empty_conv split: option.splits)
  next
    case (Some sk')
    with sk obtain u' where u': "nonempty user_id = Some u'" by auto
    then have uid: "user_id = Some u'" by (cases user_id rule: nonempty.cases) simp_all
    have ne: "nonempty (Some u') = Some u'"
      using u' uid by simp
    have "map_of it2 sk' = Some u'"
      by (simp add: m written_def Some uid)
    then show ?thesis
      by (auto simp: t2 own hk Some ne uid filter_empty_conv)
  qed
  with r2 r3 show ?thesis
    by (simp add: m written_fields [OF att])
qed

theorem create_twice_witness:
  "attached user_store user_table
   \<and> (nonempty (sort_key_name user_store) = None \<or> nonempty (Some ''alice'') \<noteq> None)
   \<and> nonempty (Some ''n1'') = Some ''n1''
   \<and> (\<exists>it2 items.
         fst (create ddb user_store ''2024-05-03T08:05:00+00:00'' ''11aa'' ''Second'' ''new text''
               (Some ''alice'') (Some ''n1'')
               (snd (create ddb user_store ''2024-05-03T08:00:00+00:00'' ''7d9f'' ''First''
                  ''old text'' (Some ''alice'') (Some ''n1'') user_table))) = Inr it2
       \<and> fst (list_notes ddb user_store (Some ''alice'')
               (snd (create ddb user_store ''2024-05-03T08:05:00+00:00'' ''11aa'' ''Second''
                  ''new text'' (Some ''alice'') (Some ''n1'')
                  (snd (create ddb user_store ''2024-05-03T08:00:00+00:00'' ''7d9f'' ''First''
                     ''old text'' (Some ''alice'') (Some ''n1'') user_table))))) = Inr items
       \<and> filter (\<lambda>r. map_of r (key_name user_store) = Some ''n1'') items = [it2]
       \<and> map_of it2 ''title'' = Some ''Second'' \<and> map_of it2 ''content'' = Some ''new text'')"
proof -
  have sk: "nonempty (sort_key_name user_store) = None \<or> nonempty (Some ''alice'') \<noteq> None"
    by simp
  have i: "nonempty (Some ''n1'') = Some ''n1''"
    by simp
  show ?thesis
    using attached_user sk i
      create_twice [OF attached_user sk i prod.collapse [symmetric] prod.collapse [symmetric]
        prod.collapse [symmetric]]
    by blast
qed


subsection \<open>C7: the frame of an update\<close>

text \<open>
  C7. On the reference table to which the store is attached, an update of an existing item
  \<open>old\<close> with a title or a content succeeds and returns the whole item \<open>new\<close>: \<open>updated_at\<close>
  is the new timestamp, title and content are the supplied values where supplied, and
  every other attribute has the value it had in \<open>old\<close>, in particular the identifier, the
  sort key, \<open>created_at\<close> and whichever of title and content was not supplied. The item
  stored under the key afterwards is \<open>new\<close>.
\<close>

theorem update_frame:
  assumes att: "attached self t"
    and u: "nonempty (sort_key_name self) = None \<or> user_id \<noteq> None"
    and f: "title \<noteq> None \<or> content \<noteq> None"
    and ex: "fst (get ddb self i user_id t) = Inr (Some old)"
  shows "\<exists>new t'. update ddb self ts i title content user_id t = (Inr new, t')
     \<and> (\<forall>a. map_of new a =
          (if a = ''content'' \<and> content \<noteq> None then content
           else if a = ''title'' \<and> title \<noteq> None then title
           else if a = ''updated_at'' then Some ts
           else map_of old a))
     \<and> map_of new (key_name self) = Some i
     \<and> (\<forall>a \<in> set (key_attrs t). map_of new a = map_of old a)
     \<and> map_of new ''created_at'' = map_of old ''created_at''
     \<and> fst (get ddb self i user_id t') = Inr (Some new)"
proof -
  obtain key where mk: "\<And>h. make_key self i user_id h = Inr key"
    and vk: "valid_key t key"
    and km: "\<forall>a \<in> set (key_attrs t).
       map_of key a = (if nonempty (sort_key_name self) = Some a then user_id else Some i)"
    using attached_key [OF att u, where i = i] by blast
  from ex have found: "find (has_key t key) (rows t) = Some old"
    by (simp add: get_attached [OF vk mk])
  then have hk: "has_key t key old"
    by (auto simp: find_Some_iff)
  obtain new c where up: "update ddb self ts i title content user_id t =
       (Inr new, (received c t)\<lparr>rows := new # filter (\<lambda>r. \<not> has_key t key r) (rows t)\<rparr>)"
    and m0: "\<forall>a. map_of new a =
          (if a = ''content'' \<and> content \<noteq> None then content
           else if a = ''title'' \<and> title \<noteq> None then title
           else if a = ''updated_at'' then Some ts
           else map_of (case find (has_key t key) (rows t) of None \<Rightarrow> key | Some r \<Rightarrow> r) a)"
    using update_attached [OF vk f mk, where ts = ts] by blast
  have m: "map_of new a =
          (if a = ''content'' \<and> content \<noteq> None then content
           else if a = ''title'' \<and> title \<noteq> None then title
           else if a = ''updated_at'' then Some ts
           else map_of old a)" for a
    using m0 [rule_format, of a] by (simp only: found option.case)
  have keep: "map_of new a = map_of old a" if "a \<in> set (key_attrs t)" for a
    using attached_names [OF att that] by (simp add: m)
  have old_key: "map_of old a = map_of key a" if "a \<in> set (key_attrs t)" for a
    using hk that by (simp add: has_key_def list_all_iff)
  have hk': "has_key t key new"
    by (simp add: has_key_def list_all_iff keep old_key)
  let ?t' = "(received c t)\<lparr>rows := new # filter (\<lambda>r. \<not> has_key t key r) (rows t)\<rparr>"
  have g: "fst (get ddb self i user_id ?t') = Inr (Some new)"
    using vk hk' by (subst get_attached [where key = key]) (simp_all add: mk)
  have "key_name self \<in> set (key_attrs t)"
    using att by (simp add: attached_attrs)
  then have "map_of new (key_name self) = Some i"
    using keep old_key km attached_sort_name [OF att] by auto
  with up m keep g show ?thesis by (simp add: m)
qed


theorem update_frame_witness:
  "attached user_store user_table
   \<and> fst (get ddb user_store ''n1'' (Some ''alice'') user_table) =
       Inr (Some [(''id'', ''n1''), (''title'', ''Groceries''), (''content'', ''Milk, eggs''),
               (''created_at'', ''2024-05-01T10:00:00+00:00''),
               (''updated_at'', ''2024-05-01T10:00:00+00:00''), (''user_id'', ''alice'')])
   \<and> (\<exists>new t'. update ddb user_store ''2024-05-03T08:00:00+00:00'' ''n1'' (Some ''Shopping'')
                    None (Some ''alice'') user_table = (Inr new, t')
          \<and> map_of new ''title'' = Some ''Shopping''
          \<and> map_of new ''content'' = Some ''Milk, eggs''
          \<and> map_of new ''updated_at'' = Some ''2024-05-03T08:00:00+00:00''
          \<and> map_of new ''created_at'' = Some ''2024-05-01T10:00:00+00:00''
          \<and> map_of new ''id'' = Some ''n1'' \<and> map_of new ''user_id'' = Some ''alice''
          \<and> fst (get ddb user_store ''n1'' (Some ''alice'') t') = Inr (Some new))"
proof -
  have u: "nonempty (sort_key_name user_store) = None \<or> Some ''alice'' \<noteq> None"
    by simp
  have f: "Some ''Shopping'' \<noteq> None \<or> (None :: string option) \<noteq> None"
    by simp
  have ex: "fst (get ddb user_store ''n1'' (Some ''alice'') user_table) =
       Inr (Some [(''id'', ''n1''), (''title'', ''Groceries''), (''content'', ''Milk, eggs''),
               (''created_at'', ''2024-05-01T10:00:00+00:00''),
               (''updated_at'', ''2024-05-01T10:00:00+00:00''), (''user_id'', ''alice'')])"
    by (simp add: get_def make_key_def user_store_def ddb_def ddb_get_item_def Let_def
        valid_key_def key_attrs_def has_key_def user_table_def received_def)
  show ?thesis
    using attached_user ex
      update_frame [OF attached_user u f ex, of "''2024-05-03T08:00:00+00:00''"]
    by (auto simp: user_store_def)
qed

subsection \<open>C8: deleting an absent key\<close>

text \<open>
  C8. On the reference table to which the store is attached, with a sort-key value given
  where the table has a sort key: when get finds no item under a key, delete of that key
  succeeds, the table afterwards differs from the table before only in the record of the
  requests received (key schema and rows are the same), and get still finds no item.
\<close>

theorem delete_absent:
  assumes att: "attached self t"
    and u: "nonempty (sort_key_name self) = None \<or> user_id \<noteq> None"
    and absent: "fst (get ddb self i user_id t) = Inr None"
  shows "\<exists>t'. delete ddb self i user_id t = (Inr (), t')
            \<and> t'\<lparr>calls := calls t\<rparr> = t
            \<and> fst (get ddb self i user_id t') = Inr None"
proof -
  obtain key where mk: "\<And>h. make_key self i user_id h = Inr key"
    and vk: "valid_key t key"
    using attached_key [OF att u, where i = i] by blast
  from absent have none: "find (has_key t key) (rows t) = None"
    by (simp add: get_attached [OF vk mk])
  then have same: "filter (\<lambda>r. \<not> has_key t key r) (rows t) = rows t"
    by (simp add: find_None_iff filter_id_conv)
  let ?t' = "(received (DeleteItem key) t)\<lparr>rows := rows t\<rparr>"
  have d: "delete ddb self i user_id t = (Inr (), ?t')"
    by (simp add: delete_attached [OF vk mk] same)
  have "fst (get ddb self i user_id ?t') = Inr None"
    using vk none by (subst get_attached [where key = key]) (simp_all add: mk)
  moreover have "?t'\<lparr>calls := calls t\<rparr> = t"
    by (simp add: received_def)
  ultimately show ?thesis using d by blast
qed

theorem delete_absent_witness:
  "attached user_store user_table
   \<and> fst (get ddb user_store ''n9'' (Some ''alice'') user_table) = Inr None
   \<and> (\<exists>t'. delete ddb user_store ''n9'' (Some ''alice'') user_table = (Inr (), t')
            \<and> t'\<lparr>calls := calls user_table\<rparr> = user_table
            \<and> fst (get ddb user_store ''n9'' (Some ''alice'') t') = Inr None)"
proof -
  have u: "nonempty (sort_key_name user_store) = None \<or> Some ''alice'' \<noteq> None"
    by simp
  have a: "fst (get ddb user_store ''n9'' (Some ''alice'') user_table) = Inr None"
    by (simp add: get_def make_key_def user_store_def ddb_def ddb_get_item_def Let_def
        valid_key_def key_attrs_def has_key_def user_table_def received_def)
  show ?thesis
    using attached_user a delete_absent [OF attached_user u a] by blast
qed


subsection \<open>C9: discovery never raises\<close>


text \<open>
  The rest of what is said there does hold. With boto3 installed and the table resource
  constructed, the constructor returns a store for every behaviour of discovery: no
  exception of discovery is propagated. And whenever discovery raises before the loop, or
  finds no key schema, or finds one whose first entry is not a dict, the store has the
  explicit partition key name if one is supplied and \<open>id\<close> otherwise, and the sort key
  name as supplied.
\<close>

lemma init_completes:
  assumes "boto3_installed e" and "resource_error e = None"
  shows "(\<exists>st. init e k sk = Inr st)
       \<and> (\<not> first_entry_read (load_key_schema e) \<longrightarrow>
            init e k sk = Inr \<lparr>key_name = or_default k ''id'', sort_key_name = sk\<rparr>)"
  using assms by (simp add: init_def try_discover_unread)

lemma init_completes_unreachable:
  "boto3_installed unreachable_env \<and> resource_error unreachable_env = None
   \<and> \<not> first_entry_read (load_key_schema unreachable_env)
   \<and> init unreachable_env (Some ''note_id'') (Some ''owner'') =
       Inr \<lparr>key_name = ''note_id'', sort_key_name = Some ''owner''\<rparr>"
proof -
  have a: "boto3_installed unreachable_env" and b: "resource_error unreachable_env = None"
    and c: "\<not> first_entry_read (load_key_schema unreachable_env)"
    by (simp_all add: unreachable_env_def load_key_schema_def)
  show ?thesis
    using a b c init_completes [OF a b, of "Some ''note_id''" "Some ''owner''"] by simp
qed

subsection \<open>C10: the empty string as a sort-key value\<close>

text \<open>
  C10. On a store configured with a sort key, for every table: get, update and delete
  given the empty string as sort-key value do not fail for a missing sort key but send
  their request with the key whose sort key is the empty string, and return the outcome
  of that request; create given the empty string fails as for a missing sort-key value,
  before any request; and list given the empty string sends the scan without a filter,
  as it does without a sort-key value, so it returns every item.
\<close>

theorem empty_sort_key_value:
  assumes sk: "nonempty (sort_key_name self) = Some sk"
  shows "get B self i (Some []) s =
           (case get_item B (dict [(key_name self, i), (sk, [])] []) s of
              (Inl x, s') \<Rightarrow> (Inl (handle x), s')
            | (Inr resp, s') \<Rightarrow> (Inr resp, s'))
       \<and> (new_title \<noteq> None \<or> new_content \<noteq> None \<longrightarrow>
            update B self ts i new_title new_content (Some []) s =
              (case update_item B (dict [(key_name self, i), (sk, [])] [])
                      (update_expr new_title new_content) (expr_vals ts new_title new_content) s of
                 (Inl x, s') \<Rightarrow> (Inl (handle x), s')
               | (Inr None, s') \<Rightarrow> (Inr [], s')
               | (Inr (Some attrs), s') \<Rightarrow> (Inr attrs, s')))
       \<and> delete B self i (Some []) s =
           (case delete_item B (dict [(key_name self, i), (sk, [])] []) s of
              (Inl x, s') \<Rightarrow> (Inl (handle x), s')
            | (Inr _, s') \<Rightarrow> (Inr (), s'))
       \<and> create B self ts uuid title content (Some []) item_id s =
           (Inl (StorageError (''Table requires sort key '' @ quoted sk @ ''; provide user_id'')), s)
       \<and> list_notes B self (Some []) s =
           (case scan B None s of
              (Inl x, s') \<Rightarrow> (Inl (handle x), s')
            | (Inr None, s') \<Rightarrow> (Inr [], s')
            | (Inr (Some items), s') \<Rightarrow> (Inr items, s'))"
proof -
  have "create B self ts uuid title content (Some []) item_id s =
      (Inl (StorageError (''Table requires sort key '' @ quoted sk @ ''; provide user_id'')), s)"
    using sk by (rule create_missing) simp
  moreover have "update B self ts i new_title new_content (Some []) s =
      (case update_item B (dict [(key_name self, i), (sk, [])] [])
              (update_expr new_title new_content) (expr_vals ts new_title new_content) s of
         (Inl x, s') \<Rightarrow> (Inl (handle x), s')
       | (Inr None, s') \<Rightarrow> (Inr [], s')
       | (Inr (Some attrs), s') \<Rightarrow> (Inr attrs, s'))"
    if "new_title \<noteq> None \<or> new_content \<noteq> None"
    using that by (auto simp add: update_def make_key_sort [OF sk] simp del: dict.simps)
  ultimately show ?thesis
    by (simp add: get_def delete_def list_notes_def make_key_sort [OF sk] del: dict.simps)
qed

theorem empty_sort_key_value_witness:
  "nonempty (sort_key_name user_store) = Some ''user_id''
   \<and> fst (get ddb user_store ''n2'' (Some []) user_table) =
       Inr (Some [(''id'', ''n2''), (''title'', ''Draft''), (''content'', ''untitled''),
               (''created_at'', ''2024-05-02T09:30:00+00:00''),
               (''updated_at'', ''2024-05-02T09:30:00+00:00''), (''user_id'', [])])
   \<and> rows (snd (delete ddb user_store ''n2'' (Some []) user_table)) =
       [[(''id'', ''n1''), (''title'', ''Groceries''), (''content'', ''Milk, eggs''),
         (''created_at'', ''2024-05-01T10:00:00+00:00''),
         (''updated_at'', ''2024-05-01T10:00:00+00:00''), (''user_id'', ''alice'')]]
   \<and> fst (create ddb user_store ''2024-05-03T08:00:00+00:00'' ''7d9f'' ''Todo'' ''Call the bank''
            (Some []) None user_table) =
       Inl (StorageError (''Table requires sort key '' @ quoted ''user_id'' @ ''; provide user_id''))
   \<and> fst (list_notes ddb user_store (Some []) user_table) = Inr (rows user_table)"
proof -
  have h: "nonempty (sort_key_name user_store) = Some ''user_id''"
    by (simp add: user_store_def)
  show ?thesis
    using h empty_sort_key_value [OF h, of ddb "''n2''" user_table None None
        "''2024-05-03T08:00:00+00:00''" "''7d9f''" "''Todo''" "''Call the bank''" None]
    by (simp add: ddb_def ddb_get_item_def ddb_delete_item_def ddb_scan_def Let_def
        valid_key_def key_attrs_def has_key_def user_table_def user_store_def received_def)
qed


end
